theory Spec2Isabelle
  imports Complex_Main
begin

section \<open>Data model (app/models.py)\<close>

text \<open>
  Each table of the service is a list of rows, each row a record with the columns of its
  model class. Money columns are \<open>Numeric(10, 2)\<close> and read back as exact decimals: they
  are rationals here. What the column keeps of a value written to it (its rounding, its
  range, what it does with a value that is no number) is the store's, and is a parameter
  of the handlers of accounts. An account number is the list of the code points of its
  text, since its handler counts and classifies its characters. A
  \<open>DateTime\<close> is a point on the clock (an integer count of microseconds); a \<open>Date\<close>
  column holds a calendar date, kept as its ISO text under the constructor \<open>Date\<close>, so
  that a value read from such a column is told apart from a string of a request.
\<close>

type_synonym datetime = int

datatype date = Date string

record Account =
  acc_id :: int
  acc_user_id :: int
  account_type :: string
  account_number :: "nat list"
  balance :: rat
  acc_created_at :: datetime
  acc_updated_at :: datetime

record Transaction =
  tx_id :: int
  from_account_id :: int
  to_account_id :: int
  tx_amount :: rat
  tx_type :: string
  description :: string
  tx_created_at :: datetime

record Budget =
  budget_id :: int
  budget_user_id :: int
  budget_name :: string
  budget_amount :: rat
  start_date :: date
  end_date :: date

record TransactionCategory =
  cat_id :: int
  cat_name :: string

record Bill =
  bill_id :: int
  bill_user_id :: int
  biller_name :: string
  due_date :: date
  bill_amount :: rat
  bill_account_id :: int

record db =
  accounts :: "Account list"
  transactions :: "Transaction list"
  categories :: "TransactionCategory list"
  budgets :: "Budget list"
  bills :: "Bill list"

definition empty_db :: db where
  "empty_db = \<lparr>accounts = [], transactions = [], categories = [], budgets = [], bills = []\<rparr>"

text \<open>The integer primary key of a new row: the database's auto-increment, one above
  every key of the table.\<close>

definition next_id :: "int list \<Rightarrow> int" where
  "next_id ids = 1 + fold max ids 0"

section \<open>Values of a request, responses\<close>

text \<open>
  A JSON number arrives as a Python \<open>int\<close> or a Python \<open>float\<close>; both compare with a
  decimal by value, but \<open>Decimal - float\<close> and \<open>Decimal + float\<close> raise \<open>TypeError\<close>,
  while \<open>Decimal - int\<close> is exact. A float is kept by its (rational) value.
  A request body is a record of the keys the handler reads: a key read with
  \<open>data['k']\<close> is present, a key read with \<open>data.get('k', ...)\<close> or tested with
  \<open>'k' in data\<close> is optional. Keys the handlers never read are left out, but for the
  body of \<open>update_account\<close>, whose emptiness is tested.
\<close>

datatype number = PyInt int | PyFloat rat

fun num_val :: "number \<Rightarrow> rat" where
  "num_val (PyInt n) = of_int n"
| "num_val (PyFloat q) = q"

datatype py_value = PyStr string | PyDate date

datatype exn =
    TypeError | ValueError | NoForeignKeysError | AmbiguousForeignKeysError
  | ProgrammingError | DataError

text \<open>One constructor for each error response of the handlers (message, status), and
  one for an exception that no handler catches (the request ends in a server error and
  the session is discarded without a commit).\<close>

datatype error =
    UnauthorizedSource
  | RecipientNotFound
  | InvalidAmount
  | InsufficientFunds
  | SameAccountTransfer
  | InvalidAccountNumber
  | DuplicateAccountNumber
  | NegativeInitialBalance
  | NegativeBalance
  | InvalidInput
  | NotFound
  | AccountNotFound
  | StartDateNotInFuture
  | StartDateAfterEndDate
  | DueDateNotInFuture
  | InvalidDateFormat
  | Unhandled exn

text \<open>The two date errors of a budget are the spec's \<open>InvalidDateRange\<close>.\<close>

definition InvalidDateRange :: "error \<Rightarrow> bool" where
  "InvalidDateRange e = (e = StartDateNotInFuture \<or> e = StartDateAfterEndDate)"

text \<open>\<open>datetime.strptime(v, '%Y-%m-%d')\<close>: a \<open>TypeError\<close> when the argument is not a
  string, a \<open>ValueError\<close> when the string is not a date of that format, else midnight of
  the date. The parser of the format itself is the library's and is a parameter.\<close>

definition strptime :: "(string \<Rightarrow> datetime option) \<Rightarrow> py_value \<Rightarrow> exn + datetime" where
  "strptime parse_ymd v =
     (case v of
        PyDate d \<Rightarrow> Inl TypeError
      | PyStr s \<Rightarrow> (case parse_ymd s of None \<Rightarrow> Inl ValueError | Some t \<Rightarrow> Inr t))"

section \<open>Accounts (app/routes/accounts.py)\<close>

text \<open>\<open>Account.query.filter_by(id=i, user_id=u).first()\<close> and \<open>Account.query.get(i)\<close>.\<close>

definition find_account_owned :: "db \<Rightarrow> int \<Rightarrow> int \<Rightarrow> Account option" where
  "find_account_owned s i user_id =
     find (\<lambda>a. acc_id a = i \<and> acc_user_id a = user_id) (accounts s)"

definition get_account_by_id :: "db \<Rightarrow> int \<Rightarrow> Account option" where
  "get_account_by_id s i = find (\<lambda>a. acc_id a = i) (accounts s)"

text \<open>Committing a loaded object: an UPDATE of the row with its key, issued only when a
  column changed, which also refreshes \<open>updated_at\<close> (its \<open>onupdate\<close>).\<close>

definition flush_account :: "datetime \<Rightarrow> Account \<Rightarrow> Account \<Rightarrow> Account" where
  "flush_account utcnow row obj =
     (if obj = row then row else obj\<lparr>acc_updated_at := utcnow\<rparr>)"

definition update_row :: "datetime \<Rightarrow> Account \<Rightarrow> db \<Rightarrow> db" where
  "update_row utcnow obj s =
     s\<lparr>accounts :=
         map (\<lambda>row. if acc_id row = acc_id obj then flush_account utcnow row obj else row)
           (accounts s)\<rparr>"

text \<open>
  \<open>str.isdigit\<close>: the string is not empty and every character of it is a digit of
  Unicode (numeric type Digit or Decimal). Below code point 256 these are \<open>0\<close> to \<open>9\<close>
  and the superscripts two, three and one (178, 179, 185); the rest of the table is the
  library's and is the parameter \<open>digit_table\<close>.
\<close>

definition unicode_digit :: "(nat \<Rightarrow> bool) \<Rightarrow> nat \<Rightarrow> bool" where
  "unicode_digit digit_table c =
     (if c < 256 then (48 \<le> c \<and> c \<le> 57) \<or> c = 178 \<or> c = 179 \<or> c = 185
      else digit_table c)"

definition isdigit :: "(nat \<Rightarrow> bool) \<Rightarrow> nat list \<Rightarrow> bool" where
  "isdigit digit_table str = (str \<noteq> [] \<and> list_all (unicode_digit digit_table) str)"

text \<open>
  The value of the key \<open>balance\<close>: the JSON parser of the framework also reads \<open>NaN\<close>,
  \<open>Infinity\<close> and \<open>-Infinity\<close>, as floats. \<open>below_zero\<close> is Python's \<open>v < 0\<close>,
  \<open>at_least_zero\<close> its \<open>v >= 0\<close> and \<open>equals_decimal\<close> its \<open>v == d\<close> for a decimal
  \<open>d\<close>: every comparison with \<open>NaN\<close> is false.
\<close>

datatype json_number = Number number | NaN | Infinity | Minus_Infinity

fun below_zero :: "json_number \<Rightarrow> bool" where
  "below_zero (Number n) = (num_val n < 0)"
| "below_zero NaN = False"
| "below_zero Infinity = False"
| "below_zero Minus_Infinity = True"


fun equals_decimal :: "json_number \<Rightarrow> rat \<Rightarrow> bool" where
  "equals_decimal (Number n) d = (num_val n = d)"
| "equals_decimal NaN d = False"
| "equals_decimal Infinity d = False"
| "equals_decimal Minus_Infinity d = False"

record account_request =
  req_account_type :: string
  req_account_number :: "nat list"
  req_balance :: "json_number option"

text \<open>The \<open>Account\<close> object that the handler builds and adds to the session: its balance
  is still the value of the request.\<close>

record Account_object =
  obj_user_id :: int
  obj_account_type :: string
  obj_account_number :: "nat list"
  obj_balance :: json_number

definition create_account_object ::
  "(nat \<Rightarrow> bool) \<Rightarrow> int \<Rightarrow> account_request \<Rightarrow> db \<Rightarrow> error + Account_object" where
  "create_account_object digit_table user_id data s =
     (if \<not> isdigit digit_table (req_account_number data)
         \<or> length (req_account_number data) < 10
      then Inl InvalidAccountNumber
      else
        case find (\<lambda>a. account_number a = req_account_number data) (accounts s) of
          Some existing_account \<Rightarrow> Inl DuplicateAccountNumber
        | None \<Rightarrow>
            let bal = (case req_balance data of None \<Rightarrow> Number (PyFloat 0) | Some b \<Rightarrow> b) in
            if below_zero bal then Inl NegativeInitialBalance
            else Inr \<lparr>obj_user_id = user_id,
                      obj_account_type = req_account_type data,
                      obj_account_number = req_account_number data,
                      obj_balance = bal\<rparr>)"

text \<open>The commit inserts the object: \<open>store\<close> gives what the \<open>Numeric(10, 2)\<close> column
  keeps of the balance, or the exception that the driver or the database raises for it
  (which the handler does not catch).\<close>

definition create_account ::
  "(nat \<Rightarrow> bool) \<Rightarrow> (json_number \<Rightarrow> exn + rat) \<Rightarrow> int \<Rightarrow> account_request \<Rightarrow> datetime
     \<Rightarrow> db \<Rightarrow> (error + unit) \<times> db" where
  "create_account digit_table store user_id data utcnow s =
     (case create_account_object digit_table user_id data s of
        Inl e \<Rightarrow> (Inl e, s)
      | Inr account \<Rightarrow>
         (case store (obj_balance account) of
            Inl x \<Rightarrow> (Inl (Unhandled x), s)
          | Inr stored \<Rightarrow>
              (Inr (),
               s\<lparr>accounts := accounts s @
                  [\<lparr>acc_id = next_id (map acc_id (accounts s)),
                    acc_user_id = obj_user_id account,
                    account_type = obj_account_type account,
                    account_number = obj_account_number account,
                    balance = stored,
                    acc_created_at = utcnow,
                    acc_updated_at = utcnow\<rparr>]\<rparr>)))"

text \<open>The body of an update: a JSON object, of which the handler reads two keys (it may
  hold others), or another JSON value (\<open>null\<close> included).\<close>

record account_patch =
  patch_account_type :: "string option"
  patch_balance :: "json_number option"
  patch_other_keys :: bool

datatype patch_body = Json_object account_patch | Json_other

text \<open>The UPDATE that a commit issues for a loaded account: it sets the columns whose
  attribute was given a value that differs from the loaded one, and \<open>updated_at\<close> with
  them (\<open>onupdate\<close>); with no such column there is no statement.\<close>

definition update_columns :: "int \<Rightarrow> string option \<Rightarrow> rat option \<Rightarrow> datetime \<Rightarrow> db \<Rightarrow> db" where
  "update_columns i new_type new_balance utcnow s =
     (if new_type = None \<and> new_balance = None then s
      else
        s\<lparr>accounts :=
            map (\<lambda>row. if acc_id row = i
                       then row\<lparr>account_type :=
                                  (case new_type of None \<Rightarrow> account_type row | Some t \<Rightarrow> t),
                                balance :=
                                  (case new_balance of None \<Rightarrow> balance row | Some q \<Rightarrow> q),
                                acc_updated_at := utcnow\<rparr>
                       else row)
              (accounts s)\<rparr>)"

text \<open>\<open>not data or not isinstance(data, dict)\<close>: an object with no key, and a value that is
  no object, are invalid input.\<close>

definition update_account ::
  "(json_number \<Rightarrow> exn + rat) \<Rightarrow> int \<Rightarrow> int \<Rightarrow> patch_body \<Rightarrow> datetime \<Rightarrow> db
     \<Rightarrow> (error + unit) \<times> db" where
  "update_account store user_id i body utcnow s =
     (case find_account_owned s i user_id of
        None \<Rightarrow> (Inl NotFound, s)
      | Some account \<Rightarrow>
         (case body of
            Json_other \<Rightarrow> (Inl InvalidInput, s)
          | Json_object data \<Rightarrow>
              if patch_account_type data = None \<and> patch_balance data = None
                 \<and> \<not> patch_other_keys data
              then (Inl InvalidInput, s)
              else
                let new_type =
                      (case patch_account_type data of
                         None \<Rightarrow> None
                       | Some t \<Rightarrow> if t = account_type account then None else Some t)
                in
                  case patch_balance data of
                    None \<Rightarrow> (Inr (), update_columns (acc_id account) new_type None utcnow s)
                  | Some new_balance \<Rightarrow>
                      if below_zero new_balance then (Inl NegativeBalance, s)
                      else if equals_decimal new_balance (balance account)
                      then (Inr (), update_columns (acc_id account) new_type None utcnow s)
                      else
                        (case store new_balance of
                           Inl x \<Rightarrow> (Inl (Unhandled x), s)
                         | Inr stored \<Rightarrow>
                             (Inr (),
                              update_columns (acc_id account) new_type (Some stored)
                                utcnow s))))"

definition delete_account :: "int \<Rightarrow> int \<Rightarrow> db \<Rightarrow> (error + unit) \<times> db" where
  "delete_account user_id i s =
     (case find_account_owned s i user_id of
        None \<Rightarrow> (Inl NotFound, s)
      | Some account \<Rightarrow>
          (Inr (), s\<lparr>accounts := filter (\<lambda>a. acc_id a \<noteq> acc_id account) (accounts s)\<rparr>))"

section \<open>Transactions (app/routes/transactions.py)\<close>

record transfer_request =
  req_from_account_id :: int
  req_to_account_id :: int
  req_amount :: number
  req_type :: string
  req_description :: "string option"

definition create_transaction ::
  "int \<Rightarrow> transfer_request \<Rightarrow> datetime \<Rightarrow> db \<Rightarrow> (error + unit) \<times> db" where
  "create_transaction user_id data utcnow s =
     (case find_account_owned s (req_from_account_id data) user_id of
        None \<Rightarrow> (Inl UnauthorizedSource, s)
      | Some from_account \<Rightarrow>
         (case get_account_by_id s (req_to_account_id data) of
            None \<Rightarrow> (Inl RecipientNotFound, s)
          | Some to_account \<Rightarrow>
              let amount = req_amount data in
              if num_val amount \<le> 0 then (Inl InvalidAmount, s)
              else if balance from_account < num_val amount then (Inl InsufficientFunds, s)
              else if acc_id from_account = acc_id to_account
                then (Inl SameAccountTransfer, s)
              else
                (case amount of
                   PyFloat q \<Rightarrow> (Inl (Unhandled TypeError), s)
                 | PyInt n \<Rightarrow>
                     let transaction =
                           \<lparr>tx_id = next_id (map tx_id (transactions s)),
                            from_account_id = acc_id from_account,
                            to_account_id = acc_id to_account,
                            tx_amount = of_int n,
                            tx_type = req_type data,
                            description =
                              (case req_description data of None \<Rightarrow> [] | Some d \<Rightarrow> d),
                            tx_created_at = utcnow\<rparr>;
                         s1 = update_row utcnow
                                (from_account\<lparr>balance := balance from_account - of_int n\<rparr>) s;
                         s2 = update_row utcnow
                                (to_account\<lparr>balance := balance to_account + of_int n\<rparr>) s1
                     in (Inr (), s2\<lparr>transactions := transactions s2 @ [transaction]\<rparr>))))"

text \<open>
  \<open>Transaction.query.join(Account)\<close> names no ON clause: the ORM takes it from the
  foreign keys of the left table that point to the right one, and raises unless there is
  exactly one. \<open>Transaction\<close> has two (models.py, \<open>from_account_id\<close> and
  \<open>to_account_id\<close>, both \<open>ForeignKey('account.id')\<close>, and no relationship).
\<close>

datatype fk_column = From_account_id | To_account_id

definition transaction_account_fks :: "fk_column list" where
  "transaction_account_fks = [From_account_id, To_account_id]"

fun join_condition :: "fk_column list \<Rightarrow> exn + fk_column" where
  "join_condition [] = Inl NoForeignKeysError"
| "join_condition [fk] = Inr fk"
| "join_condition (fk # fk' # fks) = Inl AmbiguousForeignKeysError"

fun fk_value :: "fk_column \<Rightarrow> Transaction \<Rightarrow> int" where
  "fk_value From_account_id t = from_account_id t"
| "fk_value To_account_id t = to_account_id t"

record transaction_filters =
  arg_account_id :: "int option"
  arg_start_date :: "string option"
  arg_end_date :: "string option"

text \<open>The truth value of an optional argument: \<open>None\<close>, \<open>0\<close> and the empty string are
  falsy. The comparison of \<open>created_at\<close> with the text of a date is the database's
  (\<open>sql_datetime\<close> reads the text as a point on the clock).\<close>

definition joined_query :: "fk_column \<Rightarrow> int \<Rightarrow> db \<Rightarrow> Transaction list" where
  "joined_query fk user_id s =
     concat (map (\<lambda>t. map (\<lambda>a. t)
                     (filter (\<lambda>a. fk_value fk t = acc_id a \<and> acc_user_id a = user_id)
                        (accounts s)))
               (transactions s))"

definition filter_query ::
  "(string \<Rightarrow> datetime) \<Rightarrow> transaction_filters \<Rightarrow> Transaction list \<Rightarrow> Transaction list" where
  "filter_query sql_datetime args query =
     (let query1 = (case arg_account_id args of
                      None \<Rightarrow> query
                    | Some account_id \<Rightarrow>
                        if account_id \<noteq> 0
                        then filter (\<lambda>t. from_account_id t = account_id) query
                        else query);
          query2 = (case arg_start_date args of
                      None \<Rightarrow> query1
                    | Some start \<Rightarrow>
                        if start \<noteq> []
                        then filter (\<lambda>t. sql_datetime start \<le> tx_created_at t) query1
                        else query1)
      in case arg_end_date args of
           None \<Rightarrow> query2
         | Some stop \<Rightarrow>
             if stop \<noteq> []
             then filter (\<lambda>t. tx_created_at t \<le> sql_datetime stop) query2
             else query2)"

definition get_transactions ::
  "(string \<Rightarrow> datetime) \<Rightarrow> int \<Rightarrow> transaction_filters \<Rightarrow> db \<Rightarrow> exn + Transaction list" where
  "get_transactions sql_datetime user_id args s =
     (case join_condition transaction_account_fks of
        Inl e \<Rightarrow> Inl e
      | Inr fk \<Rightarrow> Inr (filter_query sql_datetime args (joined_query fk user_id s)))"

section \<open>Budgets (app/routes/budgets.py)\<close>

record budget_request =
  req_name :: string
  req_budget_amount :: number
  req_start_date :: string
  req_end_date :: string

text \<open>The category of a name: the row with that name, added when there is none.\<close>

definition get_or_create_category :: "string \<Rightarrow> db \<Rightarrow> TransactionCategory \<times> db" where
  "get_or_create_category name s =
     (case find (\<lambda>c. cat_name c = name) (categories s) of
        Some category \<Rightarrow> (category, s)
      | None \<Rightarrow>
          let category = \<lparr>cat_id = next_id (map cat_id (categories s)), cat_name = name\<rparr>
          in (category, s\<lparr>categories := categories s @ [category]\<rparr>))"

definition create_budget ::
  "(string \<Rightarrow> datetime option) \<Rightarrow> int \<Rightarrow> budget_request \<Rightarrow> datetime \<Rightarrow> db
     \<Rightarrow> (error + unit) \<times> db" where
  "create_budget parse_ymd user_id data now s =
     (let amount = req_budget_amount data in
      if num_val amount \<le> 0 then (Inl InvalidAmount, s)
      else
        case strptime parse_ymd (PyStr (req_start_date data)) of
          Inl ValueError \<Rightarrow> (Inl InvalidDateFormat, s)
        | Inl e \<Rightarrow> (Inl (Unhandled e), s)
        | Inr start_date_obj \<Rightarrow>
           (case strptime parse_ymd (PyStr (req_end_date data)) of
              Inl ValueError \<Rightarrow> (Inl InvalidDateFormat, s)
            | Inl e \<Rightarrow> (Inl (Unhandled e), s)
            | Inr end_date_obj \<Rightarrow>
                if start_date_obj < now then (Inl StartDateNotInFuture, s)
                else if start_date_obj > end_date_obj then (Inl StartDateAfterEndDate, s)
                else
                  let (category, s1) = get_or_create_category (req_name data) s;
                      budget = \<lparr>budget_id = next_id (map budget_id (budgets s1)),
                                budget_user_id = user_id,
                                budget_name = cat_name category,
                                budget_amount = num_val amount,
                                start_date = Date (req_start_date data),
                                end_date = Date (req_end_date data)\<rparr>
                  in (Inr (), s1\<lparr>budgets := budgets s1 @ [budget]\<rparr>)))"

section \<open>Bills (app/routes/bills.py)\<close>

record bill_request =
  req_biller_name :: string
  req_due_date :: string
  req_bill_amount :: number
  req_account_id :: int

definition create_bill ::
  "(string \<Rightarrow> datetime option) \<Rightarrow> int \<Rightarrow> bill_request \<Rightarrow> datetime \<Rightarrow> db
     \<Rightarrow> (error + unit) \<times> db" where
  "create_bill parse_ymd user_id data now s =
     (let amount = req_bill_amount data in
      if num_val amount \<le> 0 then (Inl InvalidAmount, s)
      else
        case strptime parse_ymd (PyStr (req_due_date data)) of
          Inl ValueError \<Rightarrow> (Inl InvalidDateFormat, s)
        | Inl e \<Rightarrow> (Inl (Unhandled e), s)
        | Inr due_date_obj \<Rightarrow>
            if due_date_obj < now then (Inl DueDateNotInFuture, s)
            else
              case find_account_owned s (req_account_id data) user_id of
                None \<Rightarrow> (Inl AccountNotFound, s)
              | Some account \<Rightarrow>
                  (Inr (),
                   s\<lparr>bills := bills s @
                      [\<lparr>bill_id = next_id (map bill_id (bills s)),
                        bill_user_id = user_id,
                        biller_name = req_biller_name data,
                        due_date = Date (req_due_date data),
                        bill_amount = num_val amount,
                        bill_account_id = req_account_id data\<rparr>]\<rparr>))"

record bill_patch =
  patch_biller_name :: "string option"
  patch_due_date :: "string option"
  patch_bill_amount :: "number option"

text \<open>The date written back to a \<open>Date\<close> column: the text of a string, or the date
  itself.\<close>

fun as_date :: "py_value \<Rightarrow> date" where
  "as_date (PyStr str) = Date str"
| "as_date (PyDate d) = d"

definition update_bill ::
  "(string \<Rightarrow> datetime option) \<Rightarrow> int \<Rightarrow> int \<Rightarrow> bill_patch \<Rightarrow> datetime \<Rightarrow> db
     \<Rightarrow> (error + unit) \<times> db" where
  "update_bill parse_ymd user_id i data now s =
     (case find (\<lambda>b. bill_id b = i \<and> bill_user_id b = user_id) (bills s) of
        None \<Rightarrow> (Inl NotFound, s)
      | Some bill \<Rightarrow>
          let amount = (case patch_bill_amount data of
                          None \<Rightarrow> bill_amount bill | Some n \<Rightarrow> num_val n)
          in
          if amount \<le> 0 then (Inl InvalidAmount, s)
          else
            let due = (case patch_due_date data of
                         None \<Rightarrow> PyDate (due_date bill) | Some str \<Rightarrow> PyStr str)
            in
            case strptime parse_ymd due of
              Inl ValueError \<Rightarrow> (Inl InvalidDateFormat, s)
            | Inl e \<Rightarrow> (Inl (Unhandled e), s)
            | Inr due_date_obj \<Rightarrow>
                if due_date_obj < now then (Inl DueDateNotInFuture, s)
                else
                  (Inr (),
                   s\<lparr>bills :=
                       map (\<lambda>b. if bill_id b = bill_id bill
                                then bill\<lparr>biller_name :=
                                            (case patch_biller_name data of
                                               None \<Rightarrow> biller_name bill | Some n \<Rightarrow> n),
                                          due_date := as_date due,
                                          bill_amount := amount\<rparr>
                                else b)
                         (bills s)\<rparr>))"

section \<open>Sequences of ledger operations\<close>

datatype operation =
    Create_account int account_request datetime
  | Update_account int int patch_body datetime
  | Delete_account int int
  | Execute_transfer int transfer_request datetime

fun apply_operation ::
  "(nat \<Rightarrow> bool) \<Rightarrow> (json_number \<Rightarrow> exn + rat) \<Rightarrow> operation \<Rightarrow> db \<Rightarrow> (error + unit) \<times> db" where
  "apply_operation digit_table store (Create_account u data t) s =
     create_account digit_table store u data t s"
| "apply_operation digit_table store (Update_account u i body t) s =
     update_account store u i body t s"
| "apply_operation digit_table store (Delete_account u i) s = delete_account u i s"
| "apply_operation digit_table store (Execute_transfer u data t) s =
     create_transaction u data t s"

text \<open>Running a sequence: the state after each operation is the one it commits (a
  failed operation commits nothing).\<close>

fun run ::
  "(nat \<Rightarrow> bool) \<Rightarrow> (json_number \<Rightarrow> exn + rat) \<Rightarrow> operation list \<Rightarrow> db \<Rightarrow> db" where
  "run digit_table store [] s = s"
| "run digit_table store (op # ops) s =
     run digit_table store ops (snd (apply_operation digit_table store op s))"

definition balances_nonneg :: "db \<Rightarrow> bool" where
  "balances_nonneg s = list_all (\<lambda>a. 0 \<le> balance a) (accounts s)"

text \<open>A store under which a value that the guards let pass is never kept as a negative
  balance.\<close>

definition keeps_sign :: "(json_number \<Rightarrow> exn + rat) \<Rightarrow> bool" where
  "keeps_sign store = (\<forall>v q. \<not> below_zero v \<longrightarrow> store v = Inr q \<longrightarrow> 0 \<le> q)"

section \<open>A small ledger for evaluation\<close>

text \<open>Two accounts of two users, the first with 1000.00 and the second with nothing.\<close>

definition code_points :: "string \<Rightarrow> nat list" where
  "code_points str = map of_char str"

definition acct_A :: Account where
  "acct_A = \<lparr>acc_id = 1, acc_user_id = 1, account_type = ''savings'',
              account_number = code_points ''1234567890'', balance = 1000,
              acc_created_at = 0, acc_updated_at = 0\<rparr>"

definition acct_B :: Account where
  "acct_B = \<lparr>acc_id = 2, acc_user_id = 2, account_type = ''checking'',
              account_number = code_points ''0987654321'', balance = 0,
              acc_created_at = 0, acc_updated_at = 0\<rparr>"

definition ledger_AB :: db where
  "ledger_AB = empty_db\<lparr>accounts := [acct_A, acct_B]\<rparr>"

definition transfer :: "int \<Rightarrow> int \<Rightarrow> number \<Rightarrow> transfer_request" where
  "transfer i j n =
     \<lparr>req_from_account_id = i, req_to_account_id = j, req_amount = n,
      req_type = ''transfer'', req_description = Some ''rent''\<rparr>"

definition new_account :: "nat list \<Rightarrow> json_number option \<Rightarrow> account_request" where
  "new_account n b = \<lparr>req_account_type = ''savings'', req_account_number = n, req_balance = b\<rparr>"

definition patch :: "string option \<Rightarrow> json_number option \<Rightarrow> patch_body" where
  "patch ty b = Json_object \<lparr>patch_account_type = ty, patch_balance = b, patch_other_keys = False\<rparr>"

text \<open>A store for \<open>Numeric(10, 2)\<close>: it rounds a number to two places, half away from
  zero, refuses one that needs more than ten digits, and refuses \<open>NaN\<close> and the
  infinities, as the driver of the configured database (config.py) does.\<close>

definition round_2 :: "rat \<Rightarrow> rat" where
  "round_2 x =
     (if 0 \<le> x then of_int \<lfloor>x * 100 + 1 / 2\<rfloor> / 100
      else - (of_int \<lfloor>- x * 100 + 1 / 2\<rfloor> / 100))"

definition numeric_10_2 :: "json_number \<Rightarrow> exn + rat" where
  "numeric_10_2 v =
     (case v of
        Number n \<Rightarrow>
          if 100000000 \<le> \<bar>round_2 (num_val n)\<bar> then Inl DataError
          else Inr (round_2 (num_val n))
      | NaN \<Rightarrow> Inl ProgrammingError
      | Infinity \<Rightarrow> Inl ProgrammingError
      | Minus_Infinity \<Rightarrow> Inl ProgrammingError)"

definition no_digits :: "nat \<Rightarrow> bool" where
  "no_digits c = False"

definition sample_run :: "operation list" where
  "sample_run =
     [Create_account 1 (new_account (code_points ''1234567890'') (Some (Number (PyInt 1000)))) 0,
      Create_account 2 (new_account (code_points ''0987654321'') None) 1,
      Execute_transfer 1 (transfer 1 2 (PyInt 150)) 2,
      Execute_transfer 1 (transfer 1 2 (PyInt 900)) 3,
      Update_account 2 2 (patch None (Some (Number (PyInt (- 5))))) 4,
      Update_account 2 2 (patch None (Some (Number (PyInt 20)))) 5]"

text \<open>A parser of dates that knows two days of January 2030 (as microseconds since the
  epoch), a ledger with one committed transfer, and one with a bill of user 1.\<close>

definition sample_calendar :: "string \<Rightarrow> datetime option" where
  "sample_calendar str =
     (if str = ''2030-01-01'' then Some 1893456000000000
      else if str = ''2030-01-31'' then Some 1896048000000000
      else None)"

definition ledger_AB_tx :: db where
  "ledger_AB_tx = ledger_AB\<lparr>transactions :=
     [\<lparr>tx_id = 1, from_account_id = 1, to_account_id = 2, tx_amount = 150,
       tx_type = ''transfer'', description = ''rent'', tx_created_at = 7\<rparr>]\<rparr>"

definition no_filters :: transaction_filters where
  "no_filters = \<lparr>arg_account_id = None, arg_start_date = None, arg_end_date = None\<rparr>"

definition groceries :: budget_request where
  "groceries = \<lparr>req_name = ''Groceries'', req_budget_amount = PyInt 500,
                 req_start_date = ''2030-01-01'', req_end_date = ''2030-01-31''\<rparr>"

definition electricity :: Bill where
  "electricity = \<lparr>bill_id = 1, bill_user_id = 1, biller_name = ''Electric Company'',
                   due_date = Date ''2030-01-31'', bill_amount = 150,
                   bill_account_id = 1\<rparr>"

definition ledger_bill :: db where
  "ledger_bill = ledger_AB\<lparr>bills := [electricity]\<rparr>"

definition new_amount :: "number \<Rightarrow> bill_patch" where
  "new_amount n = \<lparr>patch_biller_name = None, patch_due_date = None,
                    patch_bill_amount = Some n\<rparr>"


section \<open>Lookups and row updates\<close>

lemma find_account_owned_SomeD:
  "find_account_owned s i u = Some a \<Longrightarrow> acc_id a = i \<and> acc_user_id a = u \<and> a \<in> set (accounts s)"
  by (auto simp: find_account_owned_def find_Some_iff)

lemma get_account_by_id_SomeD:
  "get_account_by_id s i = Some a \<Longrightarrow> acc_id a = i \<and> a \<in> set (accounts s)"
  by (auto simp: get_account_by_id_def find_Some_iff)

lemma acc_id_flush_account [simp]:
  "acc_id obj = acc_id row \<Longrightarrow> acc_id (flush_account t row obj) = acc_id row"
  by (simp add: flush_account_def)

lemma find_id_map:
  "find (\<lambda>a. acc_id a = i) (map (\<lambda>row. if acc_id row = j then f row else row) xs) =
     (if i = j then map_option f (find (\<lambda>a. acc_id a = i) xs) else find (\<lambda>a. acc_id a = i) xs)"
  if "\<And>row. acc_id row = j \<Longrightarrow> acc_id (f row) = j"
  using that by (induction xs) auto

lemma get_account_update_row:
  "get_account_by_id (update_row t obj s) i =
     (if i = acc_id obj then map_option (\<lambda>row. flush_account t row obj) (get_account_by_id s i)
      else get_account_by_id s i)"
  unfolding get_account_by_id_def update_row_def
  by (simp add: find_id_map)

lemma length_accounts_update_row [simp]:
  "length (accounts (update_row t obj s)) = length (accounts s)"
  by (simp add: update_row_def)

lemma nth_accounts_update_row:
  "k < length (accounts s) \<Longrightarrow>
     accounts (update_row t obj s) ! k =
       (if acc_id (accounts s ! k) = acc_id obj then flush_account t (accounts s ! k) obj
        else accounts s ! k)"
  by (simp add: update_row_def)

lemma other_tables_update_row [simp]:
  "transactions (update_row t obj s) = transactions s"
  "categories (update_row t obj s) = categories s"
  "budgets (update_row t obj s) = budgets s"
  "bills (update_row t obj s) = bills s"
  by (simp_all add: update_row_def)

lemma create_transaction_success:
  assumes "fst (create_transaction u d t s) = Inr ()"
  obtains F T n where
    "find_account_owned s (req_from_account_id d) u = Some F"
    "get_account_by_id s (req_to_account_id d) = Some T"
    "req_amount d = PyInt n" "0 < n" "of_int n \<le> balance F" "acc_id F \<noteq> acc_id T"
    "snd (create_transaction u d t s) =
       (update_row t (T\<lparr>balance := balance T + of_int n\<rparr>)
          (update_row t (F\<lparr>balance := balance F - of_int n\<rparr>) s))
       \<lparr>transactions := transactions s @
          [\<lparr>tx_id = next_id (map tx_id (transactions s)),
            from_account_id = acc_id F, to_account_id = acc_id T,
            tx_amount = of_int n, tx_type = req_type d,
            description = (case req_description d of None \<Rightarrow> [] | Some x \<Rightarrow> x),
            tx_created_at = t\<rparr>]\<rparr>"
  using assms
  by (auto simp: create_transaction_def Let_def not_less not_le
      split: option.splits if_splits number.splits)

lemma create_transaction_error_state:
  "fst (create_transaction u d t s) = Inl e \<Longrightarrow> snd (create_transaction u d t s) = s"
  by (auto simp: create_transaction_def Let_def split: option.splits if_splits number.splits)

lemma find_weaken:
  "find (\<lambda>a. P a \<and> Q a) xs = Some F \<Longrightarrow> \<exists>T. find P xs = Some T"
  by (induction xs) (auto split: if_splits)

lemma owned_account_has_id:
  "find_account_owned s i u = Some F \<Longrightarrow> \<exists>T. get_account_by_id s i = Some T"
  unfolding find_account_owned_def get_account_by_id_def by (rule find_weaken)

lemma get_account_transactions_update [simp]:
  "get_account_by_id (s\<lparr>transactions := x\<rparr>) i = get_account_by_id s i"
  by (simp add: get_account_by_id_def)

lemma balance_flush_account [simp]: "balance (flush_account t row obj) = balance obj"
  by (auto simp: flush_account_def)

text \<open>
  Claim C1. Whenever \<open>create_transaction\<close> succeeds for an amount \<open>A\<close> from the
  initiator's account \<open>F\<close> to the account \<open>T\<close>, the committed state holds
  \<open>F\<close> with its former balance less \<open>A\<close>, \<open>T\<close> with its former balance plus \<open>A\<close>,
  exactly one more transaction row, which references \<open>F\<close>, \<open>T\<close> and \<open>A\<close>, and every
  row of another account as it was; no account row is added or removed.
\<close>

theorem transfer_success_effect:
  assumes "create_transaction u d t s = (Inr (), s')"
  shows "\<exists>F T A.
      find_account_owned s (req_from_account_id d) u = Some F
    \<and> get_account_by_id s (req_to_account_id d) = Some T
    \<and> acc_id F = req_from_account_id d \<and> acc_id T = req_to_account_id d
    \<and> acc_id F \<noteq> acc_id T
    \<and> A = num_val (req_amount d) \<and> 0 < A
    \<and> map_option balance (get_account_by_id s' (acc_id F)) = Some (balance F - A)
    \<and> map_option balance (get_account_by_id s' (acc_id T)) = Some (balance T + A)
    \<and> (\<exists>tx. transactions s' = transactions s @ [tx]
            \<and> from_account_id tx = acc_id F \<and> to_account_id tx = acc_id T
            \<and> tx_amount tx = A)
    \<and> length (accounts s') = length (accounts s)
    \<and> (\<forall>k < length (accounts s).
          acc_id (accounts s ! k) \<noteq> acc_id F \<longrightarrow> acc_id (accounts s ! k) \<noteq> acc_id T \<longrightarrow>
          accounts s' ! k = accounts s ! k)"
proof -
  from assms have ok: "fst (create_transaction u d t s) = Inr ()"
    and s': "s' = snd (create_transaction u d t s)" by simp_all
  from ok obtain F T n where
    F: "find_account_owned s (req_from_account_id d) u = Some F" and
    T: "get_account_by_id s (req_to_account_id d) = Some T" and
    n: "req_amount d = PyInt n" "0 < n" and
    ne: "acc_id F \<noteq> acc_id T" and
    post: "snd (create_transaction u d t s) =
       (update_row t (T\<lparr>balance := balance T + of_int n\<rparr>)
          (update_row t (F\<lparr>balance := balance F - of_int n\<rparr>) s))
       \<lparr>transactions := transactions s @
          [\<lparr>tx_id = next_id (map tx_id (transactions s)),
            from_account_id = acc_id F, to_account_id = acc_id T,
            tx_amount = of_int n, tx_type = req_type d,
            description = (case req_description d of None \<Rightarrow> [] | Some x \<Rightarrow> x),
            tx_created_at = t\<rparr>]\<rparr>"
    by (rule create_transaction_success)
  have idF: "acc_id F = req_from_account_id d"
    using find_account_owned_SomeD [OF F] by simp
  have idT: "acc_id T = req_to_account_id d"
    using get_account_by_id_SomeD [OF T] by simp
  obtain F0 where F0: "get_account_by_id s (acc_id F) = Some F0"
    using owned_account_has_id [OF F] idF by auto
  have balF: "map_option balance (get_account_by_id s' (acc_id F)) = Some (balance F - of_int n)"
    using ne F0 by (simp add: s' post get_account_update_row)
  have balT: "map_option balance (get_account_by_id s' (acc_id T)) = Some (balance T + of_int n)"
    using ne T idT by (simp add: s' post get_account_update_row)
  have tx: "\<exists>tx. transactions s' = transactions s @ [tx]
            \<and> from_account_id tx = acc_id F \<and> to_account_id tx = acc_id T
            \<and> tx_amount tx = of_int n"
    by (simp add: s' post)
  have len: "length (accounts s') = length (accounts s)"
    by (simp add: s' post)
  have frame: "\<forall>k < length (accounts s).
          acc_id (accounts s ! k) \<noteq> acc_id F \<longrightarrow> acc_id (accounts s ! k) \<noteq> acc_id T \<longrightarrow>
          accounts s' ! k = accounts s ! k"
    by (simp add: s' post nth_accounts_update_row)
  show ?thesis
    using F T idF idT ne n balF balT tx len frame by simp
qed

theorem transfer_success_effect_witness:
  "fst (create_transaction 1 (transfer 1 2 (PyInt 150)) 7 ledger_AB) = Inr ()
   \<and> map_option balance
       (get_account_by_id (snd (create_transaction 1 (transfer 1 2 (PyInt 150)) 7 ledger_AB)) 1)
       = Some 850
   \<and> map_option balance
       (get_account_by_id (snd (create_transaction 1 (transfer 1 2 (PyInt 150)) 7 ledger_AB)) 2)
       = Some 150
   \<and> length (transactions (snd (create_transaction 1 (transfer 1 2 (PyInt 150)) 7 ledger_AB))) = 1"
proof -
  have ev: "fst (create_transaction 1 (transfer 1 2 (PyInt 150)) 7 ledger_AB) = Inr ()"
    by (simp add: create_transaction_def find_account_owned_def get_account_by_id_def
        ledger_AB_def empty_db_def acct_A_def acct_B_def transfer_def)
  have F: "find_account_owned ledger_AB 1 1 = Some acct_A"
    by (simp add: find_account_owned_def ledger_AB_def empty_db_def acct_A_def acct_B_def)
  have T: "get_account_by_id ledger_AB 2 = Some acct_B"
    by (simp add: get_account_by_id_def ledger_AB_def empty_db_def acct_A_def acct_B_def)
  have pair: "create_transaction 1 (transfer 1 2 (PyInt 150)) 7 ledger_AB =
      (Inr (), snd (create_transaction 1 (transfer 1 2 (PyInt 150)) 7 ledger_AB))"
    using ev by (simp add: prod_eq_iff)
  from transfer_success_effect [OF pair] F T ev
  show ?thesis
    by (auto simp: transfer_def acct_A_def acct_B_def ledger_AB_def empty_db_def)
qed

section \<open>Validation and atomicity of transfers\<close>

lemma create_transaction_fst:
  "fst (create_transaction u d t s) =
     (case find_account_owned s (req_from_account_id d) u of
        None \<Rightarrow> Inl UnauthorizedSource
      | Some F \<Rightarrow>
         (case get_account_by_id s (req_to_account_id d) of
            None \<Rightarrow> Inl RecipientNotFound
          | Some T \<Rightarrow>
              if num_val (req_amount d) \<le> 0 then Inl InvalidAmount
              else if balance F < num_val (req_amount d) then Inl InsufficientFunds
              else if acc_id F = acc_id T then Inl SameAccountTransfer
              else (case req_amount d of
                      PyFloat q \<Rightarrow> Inl (Unhandled TypeError) | PyInt n \<Rightarrow> Inr ())))"
  by (simp add: create_transaction_def Let_def split: option.split number.split)

text \<open>
  Claim C3. \<open>create_transaction\<close> checks in this order, and the first check that fails
  decides the response: the source account exists and is the initiator's, else
  \<open>UnauthorizedSource\<close>; the target account exists, else \<open>RecipientNotFound\<close>; the amount
  is positive, else \<open>InvalidAmount\<close>; the source balance covers the amount, else
  \<open>InsufficientFunds\<close>; source and target differ, else \<open>SameAccountTransfer\<close>. Each error
  is returned exactly when the earlier checks pass and its own fails; a transfer to the
  same account with too small a balance yields \<open>InsufficientFunds\<close>.
\<close>

theorem transfer_validation_order:
  "(fst (create_transaction u d t s) = Inl UnauthorizedSource
      \<longleftrightarrow> find_account_owned s (req_from_account_id d) u = None)
 \<and> (fst (create_transaction u d t s) = Inl RecipientNotFound
      \<longleftrightarrow> find_account_owned s (req_from_account_id d) u \<noteq> None
        \<and> get_account_by_id s (req_to_account_id d) = None)
 \<and> (fst (create_transaction u d t s) = Inl InvalidAmount
      \<longleftrightarrow> find_account_owned s (req_from_account_id d) u \<noteq> None
        \<and> get_account_by_id s (req_to_account_id d) \<noteq> None
        \<and> num_val (req_amount d) \<le> 0)
 \<and> (fst (create_transaction u d t s) = Inl InsufficientFunds
      \<longleftrightarrow> (\<exists>F. find_account_owned s (req_from_account_id d) u = Some F
            \<and> get_account_by_id s (req_to_account_id d) \<noteq> None
            \<and> 0 < num_val (req_amount d)
            \<and> balance F < num_val (req_amount d)))
 \<and> (fst (create_transaction u d t s) = Inl SameAccountTransfer
      \<longleftrightarrow> (\<exists>F. find_account_owned s (req_from_account_id d) u = Some F
            \<and> get_account_by_id s (req_to_account_id d) \<noteq> None
            \<and> 0 < num_val (req_amount d)
            \<and> num_val (req_amount d) \<le> balance F
            \<and> req_from_account_id d = req_to_account_id d))
 \<and> (\<forall>F. find_account_owned s (req_from_account_id d) u = Some F
        \<and> 0 < num_val (req_amount d)
        \<and> balance F < num_val (req_amount d)
        \<and> req_from_account_id d = req_to_account_id d
        \<longrightarrow> fst (create_transaction u d t s) = Inl InsufficientFunds)"
proof (cases "find_account_owned s (req_from_account_id d) u")
  case None
  have r: "fst (create_transaction u d t s) = Inl UnauthorizedSource"
    using None by (simp add: create_transaction_fst)
  show ?thesis unfolding r using None by simp
next
  case (Some F)
  note F = this
  have idF: "acc_id F = req_from_account_id d"
    using find_account_owned_SomeD [OF F] by simp
  show ?thesis
  proof (cases "get_account_by_id s (req_to_account_id d)")
    case None
    with owned_account_has_id [OF F] have ne: "req_from_account_id d \<noteq> req_to_account_id d"
      by auto
    have r: "fst (create_transaction u d t s) = Inl RecipientNotFound"
      using None F by (simp add: create_transaction_fst)
    show ?thesis unfolding r using None F ne by simp
  next
    case (Some T)
    note T = this
    have idT: "acc_id T = req_to_account_id d"
      using get_account_by_id_SomeD [OF T] by simp
    consider (nonpos) "num_val (req_amount d) \<le> 0"
      | (short) "0 < num_val (req_amount d)" "balance F < num_val (req_amount d)"
      | (same) "0 < num_val (req_amount d)" "num_val (req_amount d) \<le> balance F"
          "req_from_account_id d = req_to_account_id d"
      | (go) "0 < num_val (req_amount d)" "num_val (req_amount d) \<le> balance F"
          "req_from_account_id d \<noteq> req_to_account_id d"
      by linarith
    then show ?thesis
    proof cases
      case nonpos
      have r: "fst (create_transaction u d t s) = Inl InvalidAmount"
        using F T nonpos by (simp add: create_transaction_fst)
      show ?thesis unfolding r using F T nonpos by auto
    next
      case short
      have r: "fst (create_transaction u d t s) = Inl InsufficientFunds"
        using F T short by (simp add: create_transaction_fst)
      show ?thesis unfolding r using F T short by auto
    next
      case same
      have r: "fst (create_transaction u d t s) = Inl SameAccountTransfer"
        using F T idF idT same by (simp add: create_transaction_fst)
      show ?thesis unfolding r using F T same by auto
    next
      case go
      have r: "fst (create_transaction u d t s) = Inr ()
             \<or> fst (create_transaction u d t s) = Inl (Unhandled TypeError)"
        using F T idF idT go by (simp add: create_transaction_fst split: number.split)
      then show ?thesis
      proof
        assume r: "fst (create_transaction u d t s) = Inr ()"
        show ?thesis unfolding r using F T go by auto
      next
        assume r: "fst (create_transaction u d t s) = Inl (Unhandled TypeError)"
        show ?thesis unfolding r using F T go by auto
      qed
    qed
  qed
qed

lemma ledger_AB_owned_1: "find_account_owned ledger_AB 1 1 = Some acct_A"
  by (simp add: find_account_owned_def ledger_AB_def empty_db_def acct_A_def acct_B_def)


lemma ledger_AB_get_2: "get_account_by_id ledger_AB 2 = Some acct_B"
  by (simp add: get_account_by_id_def ledger_AB_def empty_db_def acct_A_def acct_B_def)

lemma transfer_sel [simp]:
  "req_from_account_id (transfer i j n) = i"
  "req_to_account_id (transfer i j n) = j"
  "req_amount (transfer i j n) = n"
  by (simp_all add: transfer_def)

lemma balance_acct_A [simp]: "balance acct_A = 1000"
  by (simp add: acct_A_def)

theorem transfer_validation_order_witness:
  "find_account_owned ledger_AB 1 1 = Some acct_A
   \<and> balance acct_A < num_val (PyInt 2000)
   \<and> fst (create_transaction 1 (transfer 1 1 (PyInt 2000)) 7 ledger_AB) = Inl InsufficientFunds"
  using transfer_validation_order [of 1 "transfer 1 1 (PyInt 2000)" 7 ledger_AB]
    ledger_AB_owned_1
  by simp

text \<open>
  Claim C4. A call of \<open>create_transaction\<close> that returns an error commits nothing: the
  state, and so every balance and the transaction table, is the one before the call.
  In particular an amount above the source balance returns \<open>InsufficientFunds\<close> with
  the state unchanged.
\<close>

theorem transfer_error_atomic:
  "(\<forall>e s'. create_transaction u d t s = (Inl e, s') \<longrightarrow>
       s' = s \<and> accounts s' = accounts s \<and> transactions s' = transactions s)
 \<and> (\<forall>F T. find_account_owned s (req_from_account_id d) u = Some F
        \<and> get_account_by_id s (req_to_account_id d) = Some T
        \<and> 0 < num_val (req_amount d) \<and> balance F < num_val (req_amount d)
        \<longrightarrow> create_transaction u d t s = (Inl InsufficientFunds, s))"
proof -
  have a: "s' = s" if "create_transaction u d t s = (Inl e, s')" for e s'
    using create_transaction_error_state [of u d t s e] that by simp
  have b: "create_transaction u d t s = (Inl InsufficientFunds, s)"
    if "find_account_owned s (req_from_account_id d) u = Some F"
      "get_account_by_id s (req_to_account_id d) = Some T"
      "0 < num_val (req_amount d)" "balance F < num_val (req_amount d)" for F T
    using that by (simp add: create_transaction_def)
  show ?thesis using a b by blast
qed

theorem transfer_error_atomic_witness:
  "create_transaction 1 (transfer 1 2 (PyInt 2000)) 7 ledger_AB = (Inl InsufficientFunds, ledger_AB)"
  using transfer_error_atomic [of 1 "transfer 1 2 (PyInt 2000)" 7 ledger_AB]
    ledger_AB_owned_1 ledger_AB_get_2
  by simp




section \<open>Searching a table\<close>

lemma find_None_conv: "find P xs = None \<longleftrightarrow> \<not> (\<exists>x \<in> set xs. P x)"
  by (induction xs) auto

lemma find_Some_ex: "(\<exists>y. find P xs = Some y) \<longleftrightarrow> (\<exists>x \<in> set xs. P x)"
  using find_None_conv [of P xs] by auto

section \<open>Listing transactions, budgets and bills\<close>

lemma join_condition_transaction_account:
  "join_condition transaction_account_fks = Inl AmbiguousForeignKeysError"
  by (simp add: transaction_account_fks_def)

lemma filter_query_account_id:
  "arg_account_id args = Some a \<Longrightarrow> a \<noteq> 0 \<Longrightarrow> t \<in> set (filter_query f args q)
     \<Longrightarrow> from_account_id t = a"
  by (auto simp: filter_query_def Let_def split: option.splits if_splits)

text \<open>
  Claim C7 says that \<open>get_transactions\<close> returns the transactions whose source account
  is the user's, restricted to the source leg of the given account when \<open>account_id\<close> is
  supplied. The handler never returns a list: its join of \<open>Transaction\<close> with \<open>Account\<close>
  has no ON clause and two foreign keys to choose from, so the query raises for every
  user, every filter and every state.
\<close>

theorem get_transactions_raises:
  "get_transactions sql_datetime user_id args s = Inl AmbiguousForeignKeysError
   \<and> get_transactions sql_datetime 1 no_filters ledger_AB_tx = Inl AmbiguousForeignKeysError"
  by (simp add: get_transactions_def join_condition_transaction_account)

text \<open>With the source leg as the ON clause, and account ids as a key, the joined query
  would be the transactions whose source account is the user's.\<close>

lemma join_one_row:
  "distinct (map f xs) \<Longrightarrow>
     map (\<lambda>a. t) (filter (\<lambda>a. k = f a \<and> P a) xs) =
       (if \<exists>a \<in> set xs. k = f a \<and> P a then [t] else [])"
proof (induction xs)
  case Nil
  then show ?case by simp
next
  case (Cons x xs)
  then show ?case by (auto simp: image_iff)
qed

lemma concat_map_if: "concat (map (\<lambda>t. if Q t then [t] else []) ts) = filter Q ts"
  by (induction ts) simp_all

lemma joined_query_source_leg:
  assumes "distinct (map acc_id (accounts s))"
  shows "joined_query From_account_id u s =
     filter (\<lambda>t. \<exists>a \<in> set (accounts s). from_account_id t = acc_id a \<and> acc_user_id a = u)
       (transactions s)"
  unfolding joined_query_def
  by (simp add: join_one_row [OF assms] concat_map_if)

lemma create_budget_rejections:
  "num_val (req_budget_amount d) \<le> 0 \<Longrightarrow>
     create_budget parse_ymd u d now s = (Inl InvalidAmount, s)"
  "0 < num_val (req_budget_amount d) \<Longrightarrow> parse_ymd (req_start_date d) = Some a \<Longrightarrow>
     parse_ymd (req_end_date d) = Some b \<Longrightarrow> a < now \<Longrightarrow>
     create_budget parse_ymd u d now s = (Inl StartDateNotInFuture, s)"
  "0 < num_val (req_budget_amount d) \<Longrightarrow> parse_ymd (req_start_date d) = Some a \<Longrightarrow>
     parse_ymd (req_end_date d) = Some b \<Longrightarrow> now \<le> a \<Longrightarrow> b < a \<Longrightarrow>
     create_budget parse_ymd u d now s = (Inl StartDateAfterEndDate, s)"
  by (simp_all add: create_budget_def strptime_def Let_def)

lemma get_or_create_category_names:
  "set (map cat_name (categories (snd (get_or_create_category n s)))) =
     insert n (set (map cat_name (categories s)))"
  "cat_name (fst (get_or_create_category n s)) = n"
  "distinct (map cat_name (categories s)) \<Longrightarrow>
     distinct (map cat_name (categories (snd (get_or_create_category n s))))"
proof -
  show "set (map cat_name (categories (snd (get_or_create_category n s)))) =
     insert n (set (map cat_name (categories s)))"
    by (auto simp: get_or_create_category_def Let_def find_None_conv find_Some_iff
        split: option.splits)
  show "cat_name (fst (get_or_create_category n s)) = n"
    by (auto simp: get_or_create_category_def Let_def find_Some_iff split: option.splits)
  show "distinct (map cat_name (categories (snd (get_or_create_category n s))))"
    if "distinct (map cat_name (categories s))"
    using that
    by (auto simp: get_or_create_category_def Let_def find_None_conv split: option.splits)
qed

text \<open>
  Claim C8 says that \<open>create_budget\<close> fails when the start date is not strictly in the
  future at creation time. The handler rejects a start only when it is earlier than the
  clock (\<open>start_date_obj < datetime.now()\<close>): a start date whose midnight is the very
  instant of the call is accepted and the budget is created, although the handler's own
  message asks for a start in the future.
\<close>

theorem create_budget_accepts_start_now:
  assumes "0 < num_val (req_budget_amount d)"
    and "parse_ymd (req_start_date d) = Some now"
    and "parse_ymd (req_end_date d) = Some e" and "now \<le> e"
  shows "fst (create_budget parse_ymd u d now s) = Inr ()
    \<and> length (budgets (snd (create_budget parse_ymd u d now s))) = Suc (length (budgets s))"
  using assms
  by (simp add: create_budget_def strptime_def Let_def get_or_create_category_def
      split: option.split prod.split)

theorem create_budget_accepts_start_now_witness:
  "sample_calendar (req_start_date groceries) = Some 1893456000000000
   \<and> fst (create_budget sample_calendar 1 groceries 1893456000000000 empty_db) = Inr ()
   \<and> length (budgets (snd (create_budget sample_calendar 1 groceries 1893456000000000 empty_db)))
       = 1"
  using create_budget_accepts_start_now
    [of groceries sample_calendar 1893456000000000 1896048000000000 1 empty_db]
  by (simp add: groceries_def sample_calendar_def empty_db_def)

text \<open>
  Claim C9 says that \<open>update_bill\<close> validates the merged amount and due date and answers
  with an error or the updated bill, also when the request omits the due date. The
  handler then takes the stored due date, which is a date and not a string, and passes
  it to \<open>strptime\<close>: the call raises \<open>TypeError\<close>, which the handler does not catch
  (it catches \<open>ValueError\<close> only), so the request ends in a server error whenever the
  merged amount is positive.
\<close>

theorem update_bill_without_due_date_raises:
  assumes "find (\<lambda>b. bill_id b = i \<and> bill_user_id b = u) (bills s) = Some bill"
    and "patch_due_date d = None"
    and "0 < (case patch_bill_amount d of None \<Rightarrow> bill_amount bill | Some n \<Rightarrow> num_val n)"
  shows "update_bill parse_ymd u i d now s = (Inl (Unhandled TypeError), s)"
  using assms by (simp add: update_bill_def strptime_def Let_def not_le)

theorem update_bill_without_due_date_raises_witness:
  "update_bill sample_calendar 1 1 (new_amount (PyInt 175)) 0 ledger_bill
     = (Inl (Unhandled TypeError), ledger_bill)"
  using update_bill_without_due_date_raises
    [of 1 1 ledger_bill electricity "new_amount (PyInt 175)" sample_calendar 0]
  by (simp add: ledger_bill_def electricity_def new_amount_def)

text \<open>What does hold of the checks of \<open>create_budget\<close> and of \<open>update_bill\<close>: a start
  date before the clock, or after the end date, is an \<open>InvalidDateRange\<close>; and a request
  of \<open>update_bill\<close> that supplies the due date is validated with the rules of
  \<open>create_bill\<close>.\<close>

lemma create_budget_date_range:
  assumes "0 < num_val (req_budget_amount d)"
    and "parse_ymd (req_start_date d) = Some a" and "parse_ymd (req_end_date d) = Some b"
    and "a < now \<or> b < a"
  shows "\<exists>e. create_budget parse_ymd u d now s = (Inl e, s) \<and> InvalidDateRange e"
  using assms
  by (auto simp: create_budget_def strptime_def Let_def InvalidDateRange_def)

lemma update_bill_with_due_date:
  assumes "find (\<lambda>b. bill_id b = i \<and> bill_user_id b = u) (bills s) = Some bill"
    and "patch_due_date d = Some str"
  shows "fst (update_bill parse_ymd u i d now s) =
     (if (case patch_bill_amount d of None \<Rightarrow> bill_amount bill | Some n \<Rightarrow> num_val n) \<le> 0
      then Inl InvalidAmount
      else case parse_ymd str of
             None \<Rightarrow> Inl InvalidDateFormat
           | Some due \<Rightarrow> if due < now then Inl DueDateNotInFuture else Inr ())"
  using assms
  by (simp add: update_bill_def strptime_def Let_def split: option.split)

lemma create_bill_fst:
  "fst (create_bill parse_ymd u d now s) =
     (if num_val (req_bill_amount d) \<le> 0 then Inl InvalidAmount
      else case parse_ymd (req_due_date d) of
             None \<Rightarrow> Inl InvalidDateFormat
           | Some due \<Rightarrow>
               if due < now then Inl DueDateNotInFuture
               else if find_account_owned s (req_account_id d) u = None
               then Inl AccountNotFound else Inr ())"
  by (simp add: create_bill_def strptime_def Let_def split: option.split)

section \<open>Creating accounts\<close>


lemma create_account_object_eq:
  "create_account_object tbl u d s =
     (if \<not> isdigit tbl (req_account_number d) \<or> length (req_account_number d) < 10
      then Inl InvalidAccountNumber
      else if \<exists>a \<in> set (accounts s). account_number a = req_account_number d
      then Inl DuplicateAccountNumber
      else if below_zero (case req_balance d of None \<Rightarrow> Number (PyFloat 0) | Some b \<Rightarrow> b)
      then Inl NegativeInitialBalance
      else Inr \<lparr>obj_user_id = u, obj_account_type = req_account_type d,
                obj_account_number = req_account_number d,
                obj_balance = (case req_balance d of None \<Rightarrow> Number (PyFloat 0) | Some b \<Rightarrow> b)\<rparr>)"
proof (cases "find (\<lambda>a. account_number a = req_account_number d) (accounts s)")
  case None
  then have "\<not> (\<exists>a \<in> set (accounts s). account_number a = req_account_number d)"
    by (simp add: find_None_conv)
  with None show ?thesis
    by (simp add: create_account_object_def Let_def)
next
  case (Some a)
  then have "\<exists>a \<in> set (accounts s). account_number a = req_account_number d"
    using find_Some_ex [of "\<lambda>a. account_number a = req_account_number d" "accounts s"] by auto
  with Some show ?thesis
    by (simp add: create_account_object_def)
qed


lemma create_account_snd:
  "snd (create_account tbl store u d t s) =
     (case create_account_object tbl u d s of
        Inl e \<Rightarrow> s
      | Inr obj \<Rightarrow>
         (case store (obj_balance obj) of
            Inl x \<Rightarrow> s
          | Inr q \<Rightarrow>
              s\<lparr>accounts := accounts s @
                 [\<lparr>acc_id = next_id (map acc_id (accounts s)), acc_user_id = obj_user_id obj,
                   account_type = obj_account_type obj,
                   account_number = obj_account_number obj,
                   balance = q, acc_created_at = t, acc_updated_at = t\<rparr>]\<rparr>))"
  by (simp add: create_account_def split: sum.split)

lemma below_zero_default [simp]: "\<not> below_zero (Number (PyFloat 0))"
  by simp






section \<open>Updating accounts\<close>





lemma update_account_success:
  assumes "fst (update_account store u i body t s) = Inr ()"
  obtains a data new_balance where
    "find_account_owned s i u = Some a" "body = Json_object data"
    "snd (update_account store u i body t s) =
       update_columns i
         (case patch_account_type data of
            None \<Rightarrow> None | Some x \<Rightarrow> if x = account_type a then None else Some x)
         new_balance t s"
    "case patch_balance data of
       None \<Rightarrow> new_balance = None
     | Some v \<Rightarrow> \<not> below_zero v
         \<and> (if equals_decimal v (balance a) then new_balance = None
            else \<exists>q. store v = Inr q \<and> new_balance = Some q)"
proof (cases "find_account_owned s i u")
  case None
  with assms show ?thesis by (simp add: update_account_def)
next
  case (Some a)
  note a = this
  have ida: "acc_id a = i" using find_account_owned_SomeD [OF a] by simp
  show ?thesis
  proof (cases body)
    case Json_other
    with a assms show ?thesis by (simp add: update_account_def)
  next
    case (Json_object data)
    note body = this
    show ?thesis
    proof (cases "patch_balance data")
      case None
      with a body assms ida that [of a data None] show ?thesis
        by (simp add: update_account_def Let_def split: if_splits)
    next
      case (Some v)
      note v = this
      show ?thesis
      proof (cases "equals_decimal v (balance a)")
        case True
        with a body v assms ida that [of a data None] show ?thesis
          by (simp add: update_account_def Let_def split: if_splits)
      next
        case False
        show ?thesis
        proof (cases "store v")
          case (Inl x)
          with False a body v assms show ?thesis
            by (simp add: update_account_def Let_def split: if_splits)
        next
          case (Inr q)
          with False a body v assms ida that [of a data "Some q"] show ?thesis
            by (simp add: update_account_def Let_def split: if_splits)
        qed
      qed
    qed
  qed
qed


lemma ledger_AB_owned_acct_A [simp]:
  "acc_id acct_A = 1" "account_type acct_A = ''savings''" "acc_updated_at acct_A = 0"
  by (simp_all add: acct_A_def)




section \<open>The balance invariant\<close>

lemma balances_nonneg_member:
  "balances_nonneg s \<Longrightarrow> a \<in> set (accounts s) \<Longrightarrow> 0 \<le> balance a"
  by (simp add: balances_nonneg_def list_all_iff)

lemma balances_nonneg_update_row:
  "balances_nonneg s \<Longrightarrow> 0 \<le> balance obj \<Longrightarrow> balances_nonneg (update_row t obj s)"
  by (auto simp: balances_nonneg_def update_row_def list_all_iff)

lemma balances_nonneg_transactions_update [simp]:
  "balances_nonneg (s\<lparr>transactions := x\<rparr>) = balances_nonneg s"
  by (simp add: balances_nonneg_def)

lemma balances_nonneg_update_columns:
  assumes "balances_nonneg s" and "\<And>q. b = Some q \<Longrightarrow> 0 \<le> q"
  shows "balances_nonneg (update_columns i ty b t s)"
  using assms
  by (cases b) (auto simp: balances_nonneg_def update_columns_def list_all_iff)

lemma create_account_nonneg:
  assumes "keeps_sign store" and "balances_nonneg s"
  shows "balances_nonneg (snd (create_account tbl store u d t s))"
proof (cases "create_account_object tbl u d s")
  case (Inl e)
  with assms show ?thesis by (simp add: create_account_snd)
next
  case (Inr obj)
  then have ok: "\<not> below_zero (obj_balance obj)"
    by (auto simp: create_account_object_eq split: if_splits)
  show ?thesis
  proof (cases "store (obj_balance obj)")
    case (Inl x)
    with Inr assms show ?thesis by (simp add: create_account_snd)
  next
    case (Inr q)
    with ok assms(1) have "0 \<le> q" by (auto simp: keeps_sign_def)
    with Inr \<open>create_account_object tbl u d s = Inr obj\<close> assms(2) show ?thesis
      by (simp add: create_account_snd balances_nonneg_def)
  qed
qed

lemma update_account_error_state:
  "fst (update_account store u i body t s) \<noteq> Inr () \<Longrightarrow>
     snd (update_account store u i body t s) = s"
  by (auto simp: update_account_def Let_def
      split: option.splits if_splits patch_body.splits sum.splits)

lemma update_account_nonneg:
  assumes "keeps_sign store" and "balances_nonneg s"
  shows "balances_nonneg (snd (update_account store u i body t s))"
proof (cases "fst (update_account store u i body t s) = Inr ()")
  case True
  then obtain a data nb where
    a: "find_account_owned s i u = Some a" and body: "body = Json_object data" and
    post: "snd (update_account store u i body t s) =
       update_columns i
         (case patch_account_type data of
            None \<Rightarrow> None | Some x \<Rightarrow> if x = account_type a then None else Some x)
         nb t s" and
    nb: "case patch_balance data of
       None \<Rightarrow> nb = None
     | Some v \<Rightarrow> \<not> below_zero v
         \<and> (if equals_decimal v (balance a) then nb = None
            else \<exists>q. store v = Inr q \<and> nb = Some q)"
    by (rule update_account_success)
  have "0 \<le> q" if "nb = Some q" for q
    using nb that assms(1)
    by (cases "patch_balance data") (auto simp: keeps_sign_def split: if_splits)
  with assms(2) show ?thesis
    by (simp add: post balances_nonneg_update_columns)
next
  case False
  with assms show ?thesis by (simp add: update_account_error_state)
qed

lemma delete_account_nonneg:
  "balances_nonneg s \<Longrightarrow> balances_nonneg (snd (delete_account u i s))"
  by (auto simp: delete_account_def balances_nonneg_def list_all_iff split: option.splits)

lemma create_transaction_nonneg:
  assumes "balances_nonneg s"
  shows "balances_nonneg (snd (create_transaction u d t s))"
proof (cases "fst (create_transaction u d t s)")
  case (Inl e)
  with assms show ?thesis by (simp add: create_transaction_error_state)
next
  case (Inr x)
  then have "fst (create_transaction u d t s) = Inr ()" by simp
  then obtain F T n where
    F: "find_account_owned s (req_from_account_id d) u = Some F" and
    T: "get_account_by_id s (req_to_account_id d) = Some T" and
    n: "0 < n" "of_int n \<le> balance F" and
    post: "snd (create_transaction u d t s) =
       (update_row t (T\<lparr>balance := balance T + of_int n\<rparr>)
          (update_row t (F\<lparr>balance := balance F - of_int n\<rparr>) s))
       \<lparr>transactions := transactions s @
          [\<lparr>tx_id = next_id (map tx_id (transactions s)),
            from_account_id = acc_id F, to_account_id = acc_id T,
            tx_amount = of_int n, tx_type = req_type d,
            description = (case req_description d of None \<Rightarrow> [] | Some x \<Rightarrow> x),
            tx_created_at = t\<rparr>]\<rparr>"
    by (rule create_transaction_success)
  have "0 \<le> balance T"
    using balances_nonneg_member [OF assms] get_account_by_id_SomeD [OF T] by simp
  with n have "0 \<le> balance T + of_int n" by simp
  moreover from n have "0 \<le> balance F - of_int n" by simp
  ultimately show ?thesis
    using assms by (simp add: post balances_nonneg_update_row)
qed

lemma apply_operation_nonneg:
  "keeps_sign store \<Longrightarrow> balances_nonneg s \<Longrightarrow>
     balances_nonneg (snd (apply_operation tbl store op s))"
  by (cases op)
    (simp_all add: create_account_nonneg update_account_nonneg delete_account_nonneg
      create_transaction_nonneg)

text \<open>On a store that keeps no value that passed the guards as a negative balance, no
  sequence of operations leads to a negative balance.\<close>

lemma run_nonneg:
  "keeps_sign store \<Longrightarrow> balances_nonneg s \<Longrightarrow> balances_nonneg (run tbl store ops s)"
  by (induction ops arbitrary: s) (simp_all add: apply_operation_nonneg)

lemma round_2_nonneg: "0 \<le> x \<Longrightarrow> 0 \<le> round_2 x"
  by (simp add: round_2_def)

lemma keeps_sign_numeric_10_2: "keeps_sign numeric_10_2"
  unfolding keeps_sign_def
proof (intro allI impI)
  fix v q
  assume "\<not> below_zero v" and "numeric_10_2 v = Inr q"
  then show "0 \<le> q"
    by (cases v) (auto simp: numeric_10_2_def round_2_nonneg not_less split: if_splits)
qed





text \<open>A run on the sample store: the second transfer and the negative balance are
  refused, and the balances end at 850 and 20.\<close>

lemma sample_run_balances:
  "map balance (accounts (run no_digits numeric_10_2 sample_run empty_db)) = [850, 20]"
  by code_simp

lemma sample_run_nonneg: "balances_nonneg (run no_digits numeric_10_2 sample_run empty_db)"
  by (rule run_nonneg [OF keeps_sign_numeric_10_2]) (simp add: balances_nonneg_def empty_db_def)

end
